theory Spec2Isabelle
  imports Complex_Main "HOL-Library.Multiset"
begin

section \<open>Tables\<close>

text \<open>
  The program (\<^verbatim>\<open>visual.py\<close>) is four functions over pandas tables. A table is
  modelled column by column, as pandas stores it: an ordered list of labelled columns.
  A cell is a number, a text, the missing value or one of the two infinities of a float
  column. Numbers are rationals. The float arithmetic of the moving average is not
  computed here: it is a parameter of the model (see \<open>rolling_mean\<close>). The relative
  frequencies of the pie chart are compared as exact quotients.

  Every column of a table has the table's row count (\<open>wf_frame\<close>), and the tables
  that \<^verbatim>\<open>read_csv\<close> returns have distinct labels; on a table with a repeated
  label the model reads and writes the first column of that label.
\<close>

datatype cell = Num rat | Str string | NaN | PosInf | NegInf

type_synonym column = "cell list"

type_synonym dataframe = "(string \<times> column) list"

datatype error =
    KeyError | IndexError | ValueError | DataError | OverflowError | MergeError
  | LoadError string

definition nrows :: "dataframe \<Rightarrow> nat" where
  "nrows df = (case df of [] \<Rightarrow> 0 | (_, col) # _ \<Rightarrow> length col)"

definition wf_frame :: "dataframe \<Rightarrow> bool" where
  "wf_frame df = list_all (\<lambda>(_, col). length col = nrows df) df"

text \<open>\<^verbatim>\<open>df[c]\<close>: the column labelled \<open>c\<close>, or KeyError.\<close>

definition getitem :: "dataframe \<Rightarrow> string \<Rightarrow> error + column" where
  "getitem df c = (case map_of df c of None \<Rightarrow> Inl KeyError | Some col \<Rightarrow> Inr col)"

text \<open>\<^verbatim>\<open>df[c] = col\<close>: replaces the column in its place, or appends a new one.\<close>

fun setitem :: "dataframe \<Rightarrow> string \<Rightarrow> column \<Rightarrow> dataframe" where
  "setitem [] c col = [(c, col)]"
| "setitem ((k, old) # df) c col =
     (if k = c then (k, col) # df else (k, old) # setitem df c col)"

text \<open>\<^verbatim>\<open>df[[c1, c2, ...]]\<close>: the listed columns in the listed order, or KeyError.\<close>

fun select :: "dataframe \<Rightarrow> string list \<Rightarrow> error + dataframe" where
  "select df [] = Inr []"
| "select df (c # cs) =
     (case getitem df c of
        Inl e \<Rightarrow> Inl e
      | Inr col \<Rightarrow>
          (case select df cs of
             Inl e \<Rightarrow> Inl e
           | Inr rest \<Rightarrow> Inr ((c, col) # rest)))"

text \<open>\<^verbatim>\<open>df.rename(columns={old: new}, inplace=True)\<close>.\<close>

definition rename :: "dataframe \<Rightarrow> string \<Rightarrow> string \<Rightarrow> dataframe" where
  "rename df old new = map (\<lambda>(k, col). (if k = old then new else k, col)) df"

text \<open>The 'year' column of a table (empty when the table has none).\<close>

definition years :: "dataframe \<Rightarrow> column" where
  "years df = (case map_of df ''year'' of None \<Rightarrow> [] | Some col \<Rightarrow> col)"

section \<open>Merge: \<^verbatim>\<open>merge_climate_data\<close>\<close>

text \<open>
  \<^verbatim>\<open>pd.merge(left, right, on=key)\<close>, an inner join on one key column. The key
  must label exactly one column on each side (KeyError when absent, ValueError when
  repeated); merging a text key with a numeric key is a ValueError. Every pair of a left
  row and a right row with equal keys gives one output row, in the order of the left
  rows; the missing value matches itself, as in pandas. Labels other than the key that
  occur on both sides get the suffixes \<^verbatim>\<open>_x\<close> and \<^verbatim>\<open>_y\<close>; when a suffix makes
  a label repeat that did not repeat before, the merge is refused (MergeError).
\<close>

definition is_Str :: "cell \<Rightarrow> bool" where
  "is_Str c = (case c of Str _ \<Rightarrow> True | _ \<Rightarrow> False)"

definition is_object :: "column \<Rightarrow> bool" where
  "is_object col = list_ex is_Str col"

definition join_pairs :: "column \<Rightarrow> column \<Rightarrow> (nat \<times> nat) list" where
  "join_pairs lk rk =
     concat (map (\<lambda>(i, k). map (\<lambda>(j, k'). (i, j))
                                (filter (\<lambda>(j, k'). k' = k) (enumerate 0 rk)))
                 (enumerate 0 lk))"

definition cell_at :: "column \<Rightarrow> nat \<Rightarrow> cell" where
  "cell_at col i = (if i < length col then col ! i else NaN)"

definition take_rows :: "column \<Rightarrow> nat list \<Rightarrow> column" where
  "take_rows col idx = map (cell_at col) idx"

text \<open>
  Some label of \<open>new\<close> repeats an earlier one at a place where the label of \<open>old\<close> did
  not.
\<close>

definition suffix_clash :: "string list \<Rightarrow> string list \<Rightarrow> bool" where
  "suffix_clash old new =
     list_ex (\<lambda>i. new ! i \<in> set (take i new) \<and> old ! i \<notin> set (take i old))
             [0..<min (length old) (length new)]"

definition merge :: "dataframe \<Rightarrow> dataframe \<Rightarrow> string \<Rightarrow> error + dataframe" where
  "merge left right on =
     (case (map_of left on, map_of right on) of
        (Some lk, Some rk) \<Rightarrow>
          if count_list (map fst left) on \<noteq> 1 \<or> count_list (map fst right) on \<noteq> 1
          then Inl ValueError
          else if lk \<noteq> [] \<and> rk \<noteq> [] \<and> is_object lk \<noteq> is_object rk
          then Inl ValueError
          else
            let pairs = join_pairs lk rk;
                rest = filter (\<lambda>(n, col). n \<noteq> on) right;
                overlap = filter (\<lambda>n. n \<noteq> on \<and> n \<in> set (map fst right)) (map fst left);
                lname = (\<lambda>n. if n \<in> set overlap then n @ ''_x'' else n);
                rname = (\<lambda>n. if n \<in> set overlap then n @ ''_y'' else n)
            in if suffix_clash (map fst left) (map lname (map fst left)) \<or>
                  suffix_clash (map fst rest) (map rname (map fst rest))
               then Inl MergeError
               else Inr (map (\<lambda>(n, col). (lname n, take_rows col (map fst pairs))) left @
                         map (\<lambda>(n, col). (rname n, take_rows col (map snd pairs))) rest)
      | _ \<Rightarrow> Inl KeyError)"

text \<open>
  The body of the first loop: read the source, keep 'year' and 'ann', rename 'ann'.
  Fetching and parsing the text file is the parameter \<open>read_csv\<close>.
\<close>

definition load_source :: "(string \<Rightarrow> error + dataframe) \<Rightarrow> string \<Rightarrow> string \<Rightarrow> error + dataframe" where
  "load_source read_csv url column =
     (case read_csv url of
        Inl e \<Rightarrow> Inl e
      | Inr df \<Rightarrow>
          (case select df [''year'', ''ann''] of
             Inl e \<Rightarrow> Inl e
           | Inr df2 \<Rightarrow> Inr (rename df2 ''ann'' column)))"

fun load_all :: "(string \<Rightarrow> error + dataframe) \<Rightarrow> (string \<times> string) list \<Rightarrow> error + dataframe list" where
  "load_all read_csv [] = Inr []"
| "load_all read_csv ((url, column) # rest) =
     (case load_source read_csv url column of
        Inl e \<Rightarrow> Inl e
      | Inr df \<Rightarrow>
          (case load_all read_csv rest of
             Inl e \<Rightarrow> Inl e
           | Inr dfs \<Rightarrow> Inr (df # dfs)))"

text \<open>The second loop: \<^verbatim>\<open>for df in dfs[1:]: merged_df = pd.merge(merged_df, df, on="year")\<close>.\<close>

fun merge_all :: "dataframe \<Rightarrow> dataframe list \<Rightarrow> error + dataframe" where
  "merge_all merged_df [] = Inr merged_df"
| "merge_all merged_df (df # dfs) =
     (case merge merged_df df ''year'' of
        Inl e \<Rightarrow> Inl e
      | Inr m \<Rightarrow> merge_all m dfs)"

text \<open>\<^verbatim>\<open>dfs[0]\<close> on the empty list raises IndexError.\<close>

definition merge_climate_data :: "(string \<Rightarrow> error + dataframe) \<Rightarrow> string list \<Rightarrow> string list \<Rightarrow> error + dataframe" where
  "merge_climate_data read_csv urls columns =
     (case load_all read_csv (zip urls columns) of
        Inl e \<Rightarrow> Inl e
      | Inr dfs \<Rightarrow>
          (case dfs of
             [] \<Rightarrow> Inl IndexError
           | d # ds \<Rightarrow> merge_all d ds))"

section \<open>MovingAverage: \<^verbatim>\<open>plot_moving_averages\<close>\<close>

text \<open>
  \<^verbatim>\<open>col.rolling(window=w).mean()\<close>. A negative window is refused when the rolling
  object is built (ValueError); a text column cannot be averaged (DataError); a window
  that does not fit a signed 64-bit integer is refused when the window bounds are
  computed (OverflowError), which happens only for a column that has rows. The window
  at row \<open>i\<close> holds the rows \<open>i - w + 1 .. i\<close> that exist; \<^verbatim>\<open>min_periods\<close>
  defaults to the window size, so the mean is defined only when the window holds \<open>w\<close>
  observations (cells that are not missing), and never for an empty window.

  Where the mean is defined, its value is computed in 64-bit floats: the column is
  converted to float64 and a running sum is kept from row to row. This arithmetic is
  the parameter \<open>fmean\<close>: \<open>fmean col w i\<close> is the float the library returns at row
  \<open>i\<close> for the column \<open>col\<close> and the window size \<open>w\<close>. A float is a number, an
  infinity or the missing value, never a text.
\<close>

type_synonym float_mean = "column \<Rightarrow> nat \<Rightarrow> nat \<Rightarrow> cell"

definition as_float :: "cell \<Rightarrow> cell" where
  "as_float c = (case c of Str _ \<Rightarrow> NaN | _ \<Rightarrow> c)"

definition window_at :: "nat \<Rightarrow> column \<Rightarrow> nat \<Rightarrow> column" where
  "window_at w col i = drop (Suc i - w) (take (Suc i) col)"

definition nobs :: "column \<Rightarrow> nat" where
  "nobs win = length (filter (\<lambda>c. c \<noteq> NaN) win)"

definition calc_mean :: "float_mean \<Rightarrow> nat \<Rightarrow> column \<Rightarrow> nat \<Rightarrow> cell" where
  "calc_mean fmean minp col i =
     (let n = nobs (window_at minp col i)
      in if minp \<le> n \<and> 0 < n then as_float (fmean col minp i) else NaN)"

definition rolling_mean :: "float_mean \<Rightarrow> int \<Rightarrow> column \<Rightarrow> error + column" where
  "rolling_mean fmean window col =
     (if window < 0 then Inl ValueError
      else if is_object col then Inl DataError
      else if col \<noteq> [] \<and> 2 ^ 63 \<le> window then Inl OverflowError
      else Inr (map (calc_mean fmean (nat window) col) [0..<length col]))"

text \<open>
  The plotting library is modelled by the calls it receives, in order. The table is
  passed by reference: the caller and the function hold the same object, so the tables
  live in a store and the function takes an address.
\<close>

datatype plt_cmd =
    Figure rat rat
  | Plot column column string
  | Bar column "nat list" string rat
  | Pie "nat list" column string rat
  | Title string
  | XLabel string
  | YLabel string
  | XTicks column rat
  | Legend string
  | Axis string
  | TightLayout
  | Show

record world =
  heap :: "nat \<Rightarrow> dataframe"
  pyplot :: "plt_cmd list"

text \<open>
  The loop \<^verbatim>\<open>for column in columns\<close>: the column is read, averaged and written
  back into the table at \<open>df\<close>; then 'year' and the column are read again and plotted.
  An error leaves the store as the iterations before it made it.
\<close>

fun ma_loop :: "float_mean \<Rightarrow> nat \<Rightarrow> string list \<Rightarrow> int \<Rightarrow> world \<Rightarrow> error option \<times> world" where
  "ma_loop fmean df [] window s = (None, s)"
| "ma_loop fmean df (column # columns) window s =
     (case getitem (heap s df) column of
        Inl e \<Rightarrow> (Some e, s)
      | Inr col \<Rightarrow>
          (case rolling_mean fmean window col of
             Inl e \<Rightarrow> (Some e, s)
           | Inr avg \<Rightarrow>
               let s1 = s\<lparr>heap := (heap s)(df := setitem (heap s df) column avg)\<rparr>
               in (case getitem (heap s1 df) ''year'' of
                     Inl e \<Rightarrow> (Some e, s1)
                   | Inr x \<Rightarrow>
                       (case getitem (heap s1 df) column of
                          Inl e \<Rightarrow> (Some e, s1)
                        | Inr y \<Rightarrow>
                            ma_loop fmean df columns window
                              (s1\<lparr>pyplot := pyplot s1 @ [Plot x y column]\<rparr>)))))"

definition plot_moving_averages ::
  "float_mean \<Rightarrow> nat \<Rightarrow> string list \<Rightarrow> int \<Rightarrow> string \<Rightarrow> string \<Rightarrow> string \<Rightarrow> world \<Rightarrow>
   error option \<times> world" where
  "plot_moving_averages fmean df columns window title xlabel ylabel s =
     (case ma_loop fmean df columns window s of
        (Some e, s') \<Rightarrow> (Some e, s')
      | (None, s') \<Rightarrow>
          (None, s'\<lparr>pyplot := pyplot s' @
             [Title title, XLabel xlabel, YLabel ylabel, Legend ''upper left'', Show]\<rparr>))"

section \<open>YearlyBarCount: \<^verbatim>\<open>plot_unclaimed_estates\<close>\<close>

text \<open>
  \<^verbatim>\<open>pd.to_datetime(col, format=fmt)\<close>. Parsing one present field under a format is
  the parameter \<open>strptime\<close> (None when the field does not match). A field that is
  missing, empty or one of the texts that stand for a missing timestamp is not parsed
  at all: it becomes the missing timestamp. Any other field that does not match raises
  ValueError for the whole column.
\<close>

record timestamp =
  ts_year :: int
  ts_month :: nat
  ts_day :: nat

definition nat_strings :: "string list" where
  "nat_strings = [''NaT'', ''nat'', ''NAT'', ''nan'', ''NaN'', ''NAN'']"

definition is_null :: "cell \<Rightarrow> bool" where
  "is_null c = (case c of NaN \<Rightarrow> True | Str s \<Rightarrow> s = [] \<or> s \<in> set nat_strings | _ \<Rightarrow> False)"

definition to_datetime :: "(string \<Rightarrow> cell \<Rightarrow> timestamp option) \<Rightarrow> string \<Rightarrow> column \<Rightarrow> error + timestamp option list" where
  "to_datetime strptime fmt col =
     (if list_ex (\<lambda>c. \<not> is_null c \<and> strptime fmt c = None) col then Inl ValueError
      else Inr (map (\<lambda>c. if is_null c then None else strptime fmt c) col))"

text \<open>\<^verbatim>\<open>.dt.year\<close>: the year of each timestamp, missing where the timestamp is.\<close>

definition dt_year :: "timestamp option list \<Rightarrow> column" where
  "dt_year ts = map (\<lambda>t. case t of None \<Rightarrow> NaN | Some d \<Rightarrow> Num (of_int (ts_year d))) ts"

text \<open>\<^verbatim>\<open>col > k\<close> on a numeric column: false on a missing value.\<close>

definition gt_mask :: "column \<Rightarrow> rat \<Rightarrow> bool list" where
  "gt_mask col k =
     map (\<lambda>c. case c of Num r \<Rightarrow> k < r | PosInf \<Rightarrow> True | _ \<Rightarrow> False) col"

text \<open>\<^verbatim>\<open>df[mask]\<close>: the rows where the mask is true.\<close>

definition filter_rows :: "dataframe \<Rightarrow> bool list \<Rightarrow> dataframe" where
  "filter_rows df keep = map (\<lambda>(k, col). (k, map fst (filter snd (zip col keep)))) df"

text \<open>
  \<^verbatim>\<open>col.value_counts()\<close>: one entry per distinct value that is not missing, with
  the number of its rows, the largest count first; values with equal counts stay in the
  order of their first rows. \<^verbatim>\<open>sort_index()\<close> orders the entries by value; it is
  used on years only.
\<close>

definition unique :: "column \<Rightarrow> column" where
  "unique col = rev (remdups (rev col))"

definition value_counts :: "column \<Rightarrow> (cell \<times> nat) list" where
  "value_counts col =
     (let present = filter (\<lambda>c. c \<noteq> NaN) col
      in sort_key (\<lambda>(v, n). - int n) (map (\<lambda>v. (v, count_list present v)) (unique present)))"

definition cell_key :: "cell \<Rightarrow> rat" where
  "cell_key c = (case c of Num r \<Rightarrow> r | _ \<Rightarrow> 0)"

definition sort_index :: "(cell \<times> nat) list \<Rightarrow> (cell \<times> nat) list" where
  "sort_index counts = sort_key (\<lambda>(v, n). cell_key v) counts"

definition plot_unclaimed_estates ::
  "(string \<Rightarrow> error + dataframe) \<Rightarrow> (string \<Rightarrow> cell \<Rightarrow> timestamp option) \<Rightarrow> string \<Rightarrow> string \<Rightarrow> error + plt_cmd list" where
  "plot_unclaimed_estates read_csv strptime file_path date_format =
     (case read_csv file_path of
        Inl e \<Rightarrow> Inl e
      | Inr data0 \<Rightarrow>
          (case getitem data0 ''Date of Death'' of
             Inl e \<Rightarrow> Inl e
           | Inr dod \<Rightarrow>
               (case to_datetime strptime date_format dod of
                  Inl e \<Rightarrow> Inl e
                | Inr ts \<Rightarrow>
                    let data = setitem data0 ''Year of Death'' (dt_year ts) in
                    (case getitem data ''Year of Death'' of
                       Inl e \<Rightarrow> Inl e
                     | Inr yod \<Rightarrow>
                         let filtered_data = filter_rows data (gt_mask yod 1999) in
                         (case getitem filtered_data ''Year of Death'' of
                            Inl e \<Rightarrow> Inl e
                          | Inr fyod \<Rightarrow>
                              let yearly_counts = sort_index (value_counts fyod)
                              in Inr [Figure 10 6,
                                      Bar (map fst yearly_counts) (map snd yearly_counts)
                                          ''skyblue'' (6 / 10),
                                      XLabel ''Unclaimed Year'',
                                      YLabel ''Count'',
                                      Title ''Unclaimed House since 2000'',
                                      XTicks (map fst yearly_counts) 45,
                                      TightLayout,
                                      Show])))))"

text \<open>The bar heights among the calls a plot function made.\<close>

fun bar_heights :: "plt_cmd list \<Rightarrow> nat list" where
  "bar_heights [] = []"
| "bar_heights (Bar x h c w # cmds) = h @ bar_heights cmds"
| "bar_heights (_ # cmds) = bar_heights cmds"

section \<open>CategoricalBucketPie: \<^verbatim>\<open>plot_marital_status_distribution\<close>\<close>






section \<open>Notions used in the statements\<close>

text \<open>
  The key column of an inner join: every key of the left column, once for each row of
  the right column that holds it.
\<close>

definition join_keys :: "column \<Rightarrow> column \<Rightarrow> column" where
  "join_keys lk rk = concat (map (\<lambda>k. replicate (count_list rk k) k) lk)"

text \<open>A table whose first column is 'year', as every table in \<^verbatim>\<open>dfs\<close> is.\<close>

definition headed :: "dataframe \<Rightarrow> bool" where
  "headed df = (case df of (k, _) # _ \<Rightarrow> k = ''year'' | [] \<Rightarrow> False)"

text \<open>No source among \<open>urls\<close> that loads holds a year twice.\<close>

definition unique_years :: "(string \<Rightarrow> error + dataframe) \<Rightarrow> string list \<Rightarrow> bool" where
  "unique_years read_csv urls =
     list_all (\<lambda>url. case read_csv url of Inr t \<Rightarrow> distinct (years t) | Inl _ \<Rightarrow> True) urls"




section \<open>Concrete inputs\<close>

text \<open>Two sources that both hold the year 2000 twice.\<close>

definition dup_table :: dataframe where
  "dup_table = [(''year'', [Num 2000, Num 2000]), (''ann'', [Num 1, Num 2])]"

definition dup_csv :: "string \<Rightarrow> error + dataframe" where
  "dup_csv url = Inr dup_table"

definition dup_merged :: dataframe where
  "dup_merged = [(''year'', [Num 2000, Num 2000, Num 2000, Num 2000]),
                 (''x'', [Num 1, Num 1, Num 2, Num 2]),
                 (''y'', [Num 1, Num 2, Num 1, Num 2])]"

text \<open>
  Two sources sharing the years 2000, 2001 and 2002; the second has the year 2003
  as well.
\<close>

definition table_a :: dataframe where
  "table_a = [(''year'', [Num 2000, Num 2001, Num 2002]),
              (''ann'', [Num 9, Num 10, Num 11])]"

definition table_b :: dataframe where
  "table_b = [(''year'', [Num 2000, Num 2001, Num 2002, Num 2003]),
              (''ann'', [Num 7, Num 8, Num 9, Num 10])]"

definition csv_ab :: "string \<Rightarrow> error + dataframe" where
  "csv_ab url = (if url = ''a'' then Inr table_a
                 else if url = ''b'' then Inr table_b
                 else Inl (LoadError url))"

definition merged_ab :: dataframe where
  "merged_ab = [(''year'', [Num 2000, Num 2001, Num 2002]),
                (''england'', [Num 9, Num 10, Num 11]),
                (''wales'', [Num 7, Num 8, Num 9])]"

text \<open>
  An example of the float mean: the mean of the numbers of the window in exact
  arithmetic. It is what the float arithmetic returns wherever that arithmetic is exact,
  as it is on the small integers of the tables below. The theorems hold for every float
  mean; this one serves at the concrete inputs.
\<close>

definition num_of :: "cell \<Rightarrow> rat option" where
  "num_of c = (case c of Num r \<Rightarrow> Some r | _ \<Rightarrow> None)"

definition exact_mean :: float_mean where
  "exact_mean col w i =
     (let obs = List.map_filter num_of (window_at w col i)
      in Num (sum_list obs / of_nat (length obs)))"

text \<open>Tables in a store: three years of temperatures at address 0.\<close>

definition temps :: dataframe where
  "temps = [(''year'', [Num 2000, Num 2001, Num 2002]),
            (''england'', [Num 5, Num 5, Num 5]),
            (''wales'', [Num 1, Num 3, Num 8])]"

text \<open>A table with a text column, and a table without a 'year' column.\<close>

definition stations :: dataframe where
  "stations = [(''year'', [Num 2000, Num 2001, Num 2002]),
               (''station'', [Str ''Kew'', Str ''Oban'', Str ''Bala''])]"

definition no_year :: dataframe where
  "no_year = [(''england'', [Num 5, Num 5, Num 5])]"

definition world0 :: world where
  "world0 = \<lparr>heap = (\<lambda>a. if a = 0 then temps
                          else if a = 1 then stations
                          else if a = 2 then no_year
                          else []),
              pyplot = []\<rparr>"

text \<open>
  An example of the date parser, for the format \<^verbatim>\<open>%d/%m/%Y\<close> only: day, month and
  year in decimal digits, separated by slashes. The theorems hold for every parser; this
  one serves at the concrete inputs.
\<close>

definition digit :: "char \<Rightarrow> nat option" where
  "digit c = (let n = of_char c in if (48::nat) \<le> n \<and> n \<le> 57 then Some (n - 48) else None)"

fun number_acc :: "nat \<Rightarrow> string \<Rightarrow> nat option" where
  "number_acc a [] = Some a"
| "number_acc a (c # cs) = (case digit c of None \<Rightarrow> None | Some d \<Rightarrow> number_acc (10 * a + d) cs)"

definition number :: "string \<Rightarrow> nat option" where
  "number s = (if s = [] then None else number_acc 0 s)"

fun fields :: "string \<Rightarrow> string list" where
  "fields [] = [[]]"
| "fields (c # cs) =
     (if c = CHR ''/'' then [] # fields cs
      else (case fields cs of f # fs \<Rightarrow> (c # f) # fs | [] \<Rightarrow> [[c]]))"

definition strptime_dmy :: "string \<Rightarrow> cell \<Rightarrow> timestamp option" where
  "strptime_dmy fmt c =
     (if fmt \<noteq> ''%d/%m/%Y'' then None
      else case c of
        Str s \<Rightarrow>
          (case map number (fields s) of
             [Some d, Some m, Some y] \<Rightarrow>
               if 1 \<le> d \<and> d \<le> 31 \<and> 1 \<le> m \<and> m \<le> 12
               then Some \<lparr>ts_year = int y, ts_month = m, ts_day = d\<rparr> else None
           | _ \<Rightarrow> None)
      | _ \<Rightarrow> None)"

text \<open>
  A file of five estates; the second has neither a date of death nor a marital status.
  In the other file the second date is not in the format.
\<close>

definition estates :: dataframe where
  "estates =
     [(''Date of Death'',
         [Str ''01/02/2003'', NaN, Str ''05/06/1998'', Str ''09/09/2001'', Str ''17/02/2003'']),
      (''Marital Status'',
         [Str ''Single'', NaN, Str ''Widow'', Str ''Single'', Str ''Single''])]"

definition bad_estates :: dataframe where
  "bad_estates =
     [(''Date of Death'', [Str ''01/02/2003'', Str ''2003-02-01'']),
      (''Marital Status'', [Str ''Single'', Str ''Widow''])]"

text \<open>
  A file with a category that is itself named 'Other', and a file in which no row has a
  category.
\<close>

definition other_estates :: dataframe where
  "other_estates =
     [(''Date of Death'', [Str ''01/02/2003'', Str ''02/02/2003'', Str ''03/02/2003'', NaN]),
      (''Marital Status'', [Str ''Married'', Str ''Married'', Str ''Married'', Str ''Other''])]"

definition blank_estates :: dataframe where
  "blank_estates =
     [(''Date of Death'', [Str ''01/02/2003'', Str ''02/02/2003'']),
      (''Marital Status'', [NaN, NaN])]"

text \<open>A file whose second date is the text 'NaT'.\<close>

definition nat_estates :: dataframe where
  "nat_estates =
     [(''Date of Death'', [Str ''01/02/2003'', Str ''NaT'']),
      (''Marital Status'', [Str ''Single'', Str ''Widow''])]"

definition estates_csv :: "string \<Rightarrow> error + dataframe" where
  "estates_csv path =
     (if path = ''UnclaimedEstatesList.csv'' then Inr estates
      else if path = ''Bad.csv'' then Inr bad_estates
      else if path = ''Other.csv'' then Inr other_estates
      else if path = ''Blank.csv'' then Inr blank_estates
      else if path = ''NaT.csv'' then Inr nat_estates
      else Inl (LoadError path))"

section \<open>Properties of Merge\<close>

lemma length_filter_enumerate:
  "length (filter (\<lambda>(j, k'). k' = k) (enumerate n rk)) = count_list rk k"
  by (induction rk arbitrary: n) auto

lemma take_rows_join_pairs_aux:
  "take_rows (pre @ lk)
     (map fst (concat (map (\<lambda>(i, k). map (\<lambda>(j, k'). (i, j))
                                (filter (\<lambda>(j, k'). k' = k) (enumerate 0 rk)))
                 (enumerate (length pre) lk)))) = join_keys lk rk"
proof (induction lk arbitrary: pre)
  case Nil
  then show ?case by (simp add: take_rows_def join_keys_def)
next
  case (Cons x xs)
  have "take_rows ((pre @ [x]) @ xs)
     (map fst (concat (map (\<lambda>(i, k). map (\<lambda>(j, k'). (i, j))
                                (filter (\<lambda>(j, k'). k' = k) (enumerate 0 rk)))
                 (enumerate (length (pre @ [x])) xs)))) = join_keys xs rk"
    by (rule Cons.IH)
  then have IH: "take_rows (pre @ x # xs)
     (map fst (concat (map (\<lambda>(i, k). map (\<lambda>(j, k'). (i, j))
                                (filter (\<lambda>(j, k'). k' = k) (enumerate 0 rk)))
                 (enumerate (Suc (length pre)) xs)))) = join_keys xs rk"
    by simp
  have hd: "map (cell_at (pre @ x # xs)) (map fst (map (\<lambda>(j, k'). (length pre, j))
                                (filter (\<lambda>(j, k'). k' = x) (enumerate 0 rk))))
     = replicate (count_list rk x) x"
    by (simp add: map_replicate_const comp_def case_prod_unfold cell_at_def
        length_filter_enumerate [unfolded case_prod_unfold])
  show ?case
    using IH hd by (simp add: take_rows_def join_keys_def)
qed

lemma take_rows_join_pairs:
  "take_rows lk (map fst (join_pairs lk rk)) = join_keys lk rk"
  using take_rows_join_pairs_aux [of "[]" lk rk] by (simp add: join_pairs_def)

lemma set_join_keys: "set (join_keys lk rk) \<subseteq> set lk \<inter> set rk"
  by (auto simp: join_keys_def count_list_0_iff)

lemma count_list_distinct:
  "distinct xs \<Longrightarrow> x \<in> set xs \<Longrightarrow> count_list xs x = 1"
  by (induction xs) (auto simp: count_list_0_iff)

lemma join_keys_distinct_right:
  "distinct rk \<Longrightarrow> join_keys lk rk = filter (\<lambda>k. k \<in> set rk) lk"
proof (induction lk)
  case Nil
  then show ?case by (simp add: join_keys_def)
next
  case (Cons x xs)
  have "x \<in> set rk \<Longrightarrow> count_list rk x = 1"
    using Cons.prems by (simp add: count_list_distinct)
  moreover have "x \<notin> set rk \<Longrightarrow> count_list rk x = 0"
    by (simp add: count_list_0_iff)
  ultimately show ?case
    using Cons by (auto simp: join_keys_def)
qed

lemma length_join_keys_left:
  "distinct rk \<Longrightarrow> length (join_keys lk rk) \<le> length lk"
  by (simp add: join_keys_distinct_right)

lemma length_join_keys_right:
  assumes "distinct lk" "distinct rk"
  shows "length (join_keys lk rk) \<le> length rk"
proof -
  have d: "distinct (filter (\<lambda>k. k \<in> set rk) lk)"
    using assms(1) by simp
  have "length (join_keys lk rk) = card (set (filter (\<lambda>k. k \<in> set rk) lk))"
    using distinct_card [OF d] assms(2) by (simp only: join_keys_distinct_right)
  also have "\<dots> \<le> card (set rk)"
    by (rule card_mono) auto
  also have "\<dots> \<le> length rk"
    by (rule card_length)
  finally show ?thesis .
qed

lemma distinct_join_keys:
  "distinct lk \<Longrightarrow> distinct rk \<Longrightarrow> distinct (join_keys lk rk)"
  by (simp add: join_keys_distinct_right)

lemma merge_headed:
  assumes "merge ((''year'', lk) # lrest) ((''year'', rk) # rrest) ''year'' = Inr m"
  shows "\<exists>rest. m = (''year'', join_keys lk rk) # rest"
  using assms
  by (auto simp: merge_def Let_def take_rows_join_pairs split: if_splits)

lemma years_headed: "years ((''year'', ys) # rest) = ys"
  by (simp add: years_def)

lemma nrows_headed: "nrows ((''year'', ys) # rest) = length ys"
  by (simp add: nrows_def)

lemma headedE: "headed df \<Longrightarrow> \<exists>ys rest. df = (''year'', ys) # rest"
  by (cases df) (auto simp: headed_def)

lemma nrows_years: "headed df \<Longrightarrow> nrows df = length (years df)"
  by (auto dest: headedE simp: years_headed nrows_headed)

lemma merge_step:
  assumes "merge l r ''year'' = Inr m" "headed l" "headed r"
  shows "headed m \<and> years m = join_keys (years l) (years r)"
proof -
  obtain lk lrest where l: "l = (''year'', lk) # lrest"
    using headedE [OF assms(2)] by blast
  obtain rk rrest where r: "r = (''year'', rk) # rrest"
    using headedE [OF assms(3)] by blast
  obtain rest where "m = (''year'', join_keys lk rk) # rest"
    using merge_headed assms(1) unfolding l r by blast
  then show ?thesis
    by (simp add: l r years_headed headed_def)
qed

lemma merge_all_years:
  assumes "merge_all l dfs = Inr m" "headed l" "list_all headed dfs"
  shows "headed m \<and> set (years m) \<subseteq> set (years l) \<and>
         (\<forall>df\<in>set dfs. set (years m) \<subseteq> set (years df))"
  using assms
proof (induction dfs arbitrary: l)
  case Nil
  then show ?case by simp
next
  case (Cons d ds)
  from Cons.prems(1) obtain m1 where m1: "merge l d ''year'' = Inr m1"
    and rest: "merge_all m1 ds = Inr m"
    by (auto split: sum.splits)
  have hd: "headed d" and hds: "list_all headed ds"
    using Cons.prems(3) by simp_all
  have s1: "headed m1" and y1: "years m1 = join_keys (years l) (years d)"
    using merge_step [OF m1 Cons.prems(2) hd] by simp_all
  have sub1: "set (years m1) \<subseteq> set (years l) \<inter> set (years d)"
    unfolding y1 by (rule set_join_keys)
  have IH: "headed m \<and> set (years m) \<subseteq> set (years m1) \<and>
         (\<forall>df\<in>set ds. set (years m) \<subseteq> set (years df))"
    by (rule Cons.IH [OF rest s1 hds])
  show ?case
    using IH sub1 by auto
qed

lemma merge_all_rows:
  assumes "merge_all l dfs = Inr m" "headed l" "list_all headed dfs"
    and "distinct (years l)" "list_all (\<lambda>df. distinct (years df)) dfs"
  shows "distinct (years m) \<and> length (years m) \<le> length (years l) \<and>
         (\<forall>df\<in>set dfs. length (years m) \<le> length (years df))"
  using assms
proof (induction dfs arbitrary: l)
  case Nil
  then show ?case by simp
next
  case (Cons d ds)
  from Cons.prems(1) obtain m1 where m1: "merge l d ''year'' = Inr m1"
    and rest: "merge_all m1 ds = Inr m"
    by (auto split: sum.splits)
  have hd: "headed d" and hds: "list_all headed ds"
    using Cons.prems(3) by simp_all
  have dd: "distinct (years d)" and dds: "list_all (\<lambda>df. distinct (years df)) ds"
    using Cons.prems(5) by simp_all
  have s1: "headed m1" and y1: "years m1 = join_keys (years l) (years d)"
    using merge_step [OF m1 Cons.prems(2) hd] by simp_all
  have d1: "distinct (years m1)"
    unfolding y1 by (rule distinct_join_keys [OF Cons.prems(4) dd])
  have l1: "length (years m1) \<le> length (years l)"
    unfolding y1 by (rule length_join_keys_left [OF dd])
  have l2: "length (years m1) \<le> length (years d)"
    unfolding y1 by (rule length_join_keys_right [OF Cons.prems(4) dd])
  have IH: "distinct (years m) \<and> length (years m) \<le> length (years m1) \<and>
         (\<forall>df\<in>set ds. length (years m) \<le> length (years df))"
    by (rule Cons.IH [OF rest s1 hds d1 dds])
  show ?case
    using IH l1 l2 by auto
qed

lemma load_source_shape:
  assumes "load_source read_csv url column = Inr df"
  shows "\<exists>t. read_csv url = Inr t \<and> headed df \<and> years df = years t \<and>
             map_of t ''year'' \<noteq> None"
  using assms
  by (auto simp: load_source_def getitem_def rename_def headed_def years_def
           split: sum.splits option.splits)

lemma load_all_headed:
  "load_all read_csv ps = Inr dfs \<Longrightarrow> list_all headed dfs"
proof (induction ps arbitrary: dfs)
  case Nil
  then show ?case by simp
next
  case (Cons p ps)
  obtain url c where p: "p = (url, c)" by (cases p)
  from Cons.prems obtain d ds where d: "load_source read_csv url c = Inr d"
    and ds: "load_all read_csv ps = Inr ds" and dfs: "dfs = d # ds"
    unfolding p by (auto split: sum.splits)
  show ?case
    unfolding dfs using load_source_shape [OF d] Cons.IH [OF ds] by auto
qed

lemma load_all_mem:
  "load_all read_csv ps = Inr dfs \<Longrightarrow> (url, c) \<in> set ps \<Longrightarrow> read_csv url = Inr t \<Longrightarrow>
   map_of t ''year'' \<noteq> None \<and> (\<exists>df\<in>set dfs. years df = years t)"
proof (induction ps arbitrary: dfs)
  case Nil
  then show ?case by simp
next
  case (Cons p ps)
  obtain u k where p: "p = (u, k)" by (cases p)
  from Cons.prems(1) obtain d ds where d: "load_source read_csv u k = Inr d"
    and ds: "load_all read_csv ps = Inr ds" and dfs: "dfs = d # ds"
    unfolding p by (auto split: sum.splits)
  show ?case
  proof (cases "(url, c) = p")
    case True
    then have "u = url" using p by simp
    then show ?thesis
      using load_source_shape [OF d] Cons.prems(3) dfs by auto
  next
    case False
    then have "(url, c) \<in> set ps" using Cons.prems(2) by simp
    then show ?thesis
      using Cons.IH [OF ds _ Cons.prems(3)] dfs by auto
  qed
qed

lemma load_all_distinct:
  "load_all read_csv ps = Inr dfs \<Longrightarrow> unique_years read_csv (map fst ps) \<Longrightarrow>
   list_all (\<lambda>df. distinct (years df)) dfs"
proof (induction ps arbitrary: dfs)
  case Nil
  then show ?case by simp
next
  case (Cons p ps)
  obtain u k where p: "p = (u, k)" by (cases p)
  from Cons.prems(1) obtain d ds where d: "load_source read_csv u k = Inr d"
    and ds: "load_all read_csv ps = Inr ds" and dfs: "dfs = d # ds"
    unfolding p by (auto split: sum.splits)
  have u1: "unique_years read_csv (map fst ps)"
    using Cons.prems(2) by (simp add: unique_years_def)
  obtain t where t: "read_csv u = Inr t" and yt: "years d = years t"
    using load_source_shape [OF d] by blast
  have "distinct (years t)"
    using Cons.prems(2) t by (simp add: unique_years_def p)
  then show ?case
    unfolding dfs using yt Cons.IH [OF ds u1] by simp
qed

lemma wf_frame_length:
  "wf_frame t \<Longrightarrow> map_of t c = Some col \<Longrightarrow> length col = nrows t"
  by (auto simp: wf_frame_def list_all_iff dest!: map_of_SomeD)

text \<open>
  C1, as amended. For every source that Merge read, the year of every output row
  appears in that source; and when no source holds a year twice, the output has at most
  as many rows as that source (so at most the minimum over the sources). Without the
  condition the row count can exceed every input's, as two sources that both hold a
  year twice show.
\<close>

theorem merge_inner_join:
  assumes "merge_climate_data read_csv urls columns = Inr m"
    and "(url, c) \<in> set (zip urls columns)"
    and "read_csv url = Inr t"
  shows "set (years m) \<subseteq> set (years t) \<and>
         (unique_years read_csv (map fst (zip urls columns)) \<and> wf_frame t \<longrightarrow>
            nrows m \<le> nrows t)"
proof -
  from assms(1) obtain d ds where load: "load_all read_csv (zip urls columns) = Inr (d # ds)"
    and mm: "merge_all d ds = Inr m"
    by (auto simp: merge_climate_data_def split: sum.splits list.splits)
  have hs: "list_all headed (d # ds)"
    by (rule load_all_headed [OF load])
  then have hd: "headed d" and hds: "list_all headed ds" by simp_all
  from load_all_mem [OF load assms(2,3)]
  obtain df ys where df: "df \<in> set (d # ds)" and ydf: "years df = years t"
    and ys: "map_of t ''year'' = Some ys"
    by auto
  have Y: "headed m \<and> set (years m) \<subseteq> set (years d) \<and>
         (\<forall>df\<in>set ds. set (years m) \<subseteq> set (years df))"
    by (rule merge_all_years [OF mm hd hds])
  have "set (years m) \<subseteq> set (years df)"
    using Y df by (cases "df = d") auto
  then have sub: "set (years m) \<subseteq> set (years t)"
    by (simp add: ydf)
  have rows: "nrows m \<le> nrows t"
    if u: "unique_years read_csv (map fst (zip urls columns))" and wf: "wf_frame t"
  proof -
    have "list_all (\<lambda>df. distinct (years df)) (d # ds)"
      by (rule load_all_distinct [OF load u])
    then have dd: "distinct (years d)" and dds: "list_all (\<lambda>df. distinct (years df)) ds"
      by simp_all
    have "distinct (years m) \<and> length (years m) \<le> length (years d) \<and>
         (\<forall>df\<in>set ds. length (years m) \<le> length (years df))"
      by (rule merge_all_rows [OF mm hd hds dd dds])
    then have "length (years m) \<le> length (years df)"
      using df by (cases "df = d") auto
    then have "length (years m) \<le> length (years t)"
      by (simp add: ydf)
    moreover have "length (years t) = nrows t"
      using wf_frame_length [OF wf ys] by (simp add: years_def ys)
    moreover have "nrows m = length (years m)"
      using Y by (simp add: nrows_years)
    ultimately show ?thesis by simp
  qed
  show ?thesis
    using sub rows by blast
qed

lemma merge_ab_value:
  "merge_climate_data csv_ab [''a'', ''b''] [''england'', ''wales''] = Inr merged_ab"
  by (simp add: merge_climate_data_def csv_ab_def table_a_def table_b_def merged_ab_def
      load_source_def getitem_def rename_def merge_def join_pairs_def enumerate_eq_zip
      take_rows_def cell_at_def is_object_def is_Str_def suffix_clash_def Let_def)

theorem merge_inner_join_witness:
  "set (years merged_ab) \<subseteq> set (years table_b) \<and> nrows merged_ab \<le> nrows table_b \<and>
   nrows merged_ab = 3 \<and> nrows table_b = 4"
proof -
  have z: "(''b'', ''wales'') \<in> set (zip [''a'', ''b''] [''england'', ''wales''])"
    by simp
  have r: "csv_ab ''b'' = Inr table_b"
    by (simp add: csv_ab_def)
  have u: "unique_years csv_ab (map fst (zip [''a'', ''b''] [''england'', ''wales'']))"
    by (simp add: unique_years_def csv_ab_def table_a_def table_b_def years_def)
  have w: "wf_frame table_b"
    by (simp add: wf_frame_def table_b_def nrows_def)
  have n: "nrows merged_ab = 3 \<and> nrows table_b = 4"
    by (simp add: nrows_def merged_ab_def table_b_def)
  show ?thesis
    using merge_inner_join [OF merge_ab_value z r] u w n by simp
qed

theorem merge_rows_counterexample:
  "merge_climate_data dup_csv [''a'', ''b''] [''x'', ''y''] = Inr dup_merged \<and>
   dup_csv ''a'' = Inr dup_table \<and> dup_csv ''b'' = Inr dup_table \<and>
   nrows dup_table = 2 \<and> nrows dup_merged = 4"
  by (simp add: merge_climate_data_def dup_csv_def dup_table_def dup_merged_def
      load_source_def getitem_def rename_def merge_def join_pairs_def enumerate_eq_zip
      take_rows_def cell_at_def is_object_def is_Str_def nrows_def suffix_clash_def Let_def)

text \<open>
  C8. When the list of sources and the list of column names differ in length, the
  entries of the longer list beyond the length of the shorter are ignored: the call
  behaves, in its result and in its errors, as the call on both lists cut to the shorter
  length.
\<close>

theorem merge_zip_truncates:
  "merge_climate_data read_csv urls columns =
   merge_climate_data read_csv (take (min (length urls) (length columns)) urls)
                               (take (min (length urls) (length columns)) columns)"
  unfolding merge_climate_data_def
  by (simp add: take_zip [symmetric])

text \<open>
  C9. Called with no sources, Merge fails: \<^verbatim>\<open>dfs[0]\<close> raises IndexError. No empty
  table is returned.
\<close>

theorem merge_no_sources:
  "merge_climate_data read_csv [] columns = Inl IndexError"
  by (simp add: merge_climate_data_def)

section \<open>Properties of MovingAverage\<close>

lemma map_of_setitem: "map_of (setitem df c col) = (map_of df)(c \<mapsto> col)"
  by (induction df c col rule: setitem.induct) (auto simp: fun_eq_iff)

lemma getitem_setitem: "getitem (setitem df c col) k = (if k = c then Inr col else getitem df k)"
  by (simp add: getitem_def map_of_setitem)






lemma ma_loop_frame:
  "ma_loop fmean df cs w s = (r, s') \<Longrightarrow> k \<notin> set cs \<Longrightarrow>
   map_of (heap s' df) k = map_of (heap s df) k"
proof (induction cs arbitrary: s)
  case Nil
  then show ?case by simp
next
  case (Cons c cs)
  show ?case
  proof (cases "getitem (heap s df) c")
    case (Inl e)
    then show ?thesis using Cons.prems by simp
  next
    case (Inr col)
    note col = this
    show ?thesis
    proof (cases "rolling_mean fmean w col")
      case (Inl e)
      then show ?thesis using Cons.prems col by simp
    next
      case (Inr avg)
      note avg = this
      let ?s1 = "s\<lparr>heap := (heap s)(df := setitem (heap s df) c avg)\<rparr>"
      have k1: "map_of (heap ?s1 df) k = map_of (heap s df) k"
        using Cons.prems(2) by (simp add: map_of_setitem)
      show ?thesis
      proof (cases "getitem (heap ?s1 df) ''year''")
        case (Inl e)
        then have "s' = ?s1" using Cons.prems(1) col avg by (simp add: Let_def)
        then show ?thesis using k1 by simp
      next
        case (Inr x)
        then have "ma_loop fmean df cs w (?s1\<lparr>pyplot := pyplot ?s1 @ [Plot x avg c]\<rparr>) = (r, s')"
          using Cons.prems(1) col avg by (simp add: Let_def getitem_setitem)
        from Cons.IH [OF this] Cons.prems(2) have
          "map_of (heap s' df) k =
           map_of (heap (?s1\<lparr>pyplot := pyplot ?s1 @ [Plot x avg c]\<rparr>) df) k"
          by simp
        then show ?thesis using k1 by simp
      qed
    qed
  qed
qed





lemma plot_moving_averages_heap:
  "heap (snd (plot_moving_averages fmean df cs w t x y s)) = heap (snd (ma_loop fmean df cs w s))"
  by (simp add: plot_moving_averages_def split: prod.splits option.splits)

























text \<open>
  C10. When 'year' is not among the columns to transform, MovingAverage leaves the
  'year' column of the table as it was, whether the call completes or fails.
\<close>

theorem moving_average_keeps_year:
  assumes "''year'' \<notin> set columns"
  shows "getitem (heap (snd (plot_moving_averages fmean df columns w title xlabel ylabel s)) df)
           ''year'' =
         getitem (heap s df) ''year''"
proof -
  have "map_of (heap (snd (ma_loop fmean df columns w s)) df) ''year'' =
        map_of (heap s df) ''year''"
    by (rule ma_loop_frame [OF _ assms]) (rule prod.collapse [symmetric])
  then show ?thesis
    by (simp add: plot_moving_averages_heap getitem_def)
qed

theorem moving_average_keeps_year_witness:
  "getitem (heap (snd (plot_moving_averages exact_mean 0 [''england'', ''wales''] 2
          ''Rising Temperature'' ''Year'' ''Mean Temperature'' world0)) 0) ''year'' =
     Inr [Num 2000, Num 2001, Num 2002]"
proof -
  have h: "''year'' \<notin> set [''england'', ''wales'']" by simp
  show ?thesis
    using moving_average_keeps_year [OF h, where s = world0 and df = 0 and w = 2
        and fmean = exact_mean]
    by (simp add: world0_def temps_def getitem_def)
qed

section \<open>Properties of YearlyBarCount\<close>

lemma map_of_filter_rows:
  "map_of (filter_rows df keep) k =
   map_option (\<lambda>col. map fst (filter snd (zip col keep))) (map_of df k)"
  by (induction df) (auto simp: filter_rows_def)

lemma getitem_filter_rows:
  "getitem df k = Inr col \<Longrightarrow>
   getitem (filter_rows df keep) k = Inr (map fst (filter snd (zip col keep)))"
  by (simp add: getitem_def map_of_filter_rows split: option.splits)

lemma filter_by_mask: "map fst (filter snd (zip col (map P col))) = filter P col"
  by (induction col) auto

lemma sum_list_sort_key:
  fixes xs :: "('a \<times> nat) list"
  shows "sum_list (map snd (sort_key f xs)) = sum_list (map snd xs)"
proof -
  have "mset (map snd (sort_key f xs)) = mset (map snd xs)"
    by simp
  then have "sum_mset (mset (map snd (sort_key f xs))) = sum_mset (mset (map snd xs))"
    by (rule arg_cong)
  then show ?thesis
    by (simp only: sum_mset_sum_list)
qed

lemma set_unique: "set (unique xs) = set xs"
  by (simp add: unique_def)

lemma distinct_unique: "distinct (unique xs)"
  by (simp add: unique_def)

lemma sum_count_unique:
  "sum_list (map (count_list xs) (unique xs)) = length xs"
proof -
  have "sum_list (map (count_list xs) (unique xs)) = sum (count_list xs) (set (unique xs))"
    by (rule sum_list_distinct_conv_sum_set) (rule distinct_unique)
  also have "\<dots> = length xs"
    by (simp add: set_unique sum_count_set)
  finally show ?thesis .
qed

lemma value_counts_sum:
  "sum_list (map snd (value_counts col)) = length (filter (\<lambda>c. c \<noteq> NaN) col)"
  by (simp add: value_counts_def Let_def sum_list_sort_key comp_def sum_count_unique)


lemma sort_index_sum: "sum_list (map snd (sort_index counts)) = sum_list (map snd counts)"
  by (simp add: sort_index_def sum_list_sort_key)

lemma dt_year_filter:
  "length (filter (\<lambda>c. case c of Num r \<Rightarrow> 1999 < r | PosInf \<Rightarrow> True | _ \<Rightarrow> False) (dt_year ts)) =
   length (filter (\<lambda>t. case t of Some d \<Rightarrow> 1999 < ts_year d | None \<Rightarrow> False) ts)"
  unfolding dt_year_def by (induction ts) (auto split: option.splits)

lemma filter_no_NaN:
  "filter (\<lambda>c. c \<noteq> NaN)
     (filter (\<lambda>c. case c of Num r \<Rightarrow> k < r | PosInf \<Rightarrow> True | _ \<Rightarrow> False) col) =
   filter (\<lambda>c. case c of Num r \<Rightarrow> k < r | PosInf \<Rightarrow> True | _ \<Rightarrow> False) col"
  by (induction col) (auto split: cell.splits)

lemmas estates_simps = plot_unclaimed_estates_def estates_csv_def estates_def bad_estates_def
  nat_estates_def getitem_def to_datetime_def is_null_def nat_strings_def strptime_dmy_def number_def digit_def dt_year_def gt_mask_def
  filter_rows_def value_counts_def unique_def sort_index_def cell_key_def Let_def

text \<open>
  C3. When the file loads, has the date column and every date in it parses, the call
  completes and the bar heights sum to the number of rows whose parsed year is greater
  than 1999. (A row with a missing date has no year and is not among them.)
\<close>

theorem yearly_bar_count_total:
  assumes "read_csv file_path = Inr data"
    and "getitem data ''Date of Death'' = Inr dod"
    and "to_datetime strptime date_format dod = Inr ts"
  shows "\<exists>cmds. plot_unclaimed_estates read_csv strptime file_path date_format = Inr cmds \<and>
           sum_list (bar_heights cmds) =
             length (filter (\<lambda>t. case t of Some d \<Rightarrow> 1999 < ts_year d | None \<Rightarrow> False) ts)"
proof -
  let ?data = "setitem data ''Year of Death'' (dt_year ts)"
  let ?keep = "gt_mask (dt_year ts) 1999"
  let ?fyod = "filter (\<lambda>c. case c of Num r \<Rightarrow> 1999 < r | PosInf \<Rightarrow> True | _ \<Rightarrow> False) (dt_year ts)"
  have g1: "getitem ?data ''Year of Death'' = Inr (dt_year ts)"
    by (simp add: getitem_setitem)
  have g2: "getitem (filter_rows ?data ?keep) ''Year of Death'' = Inr ?fyod"
    using getitem_filter_rows [OF g1, of ?keep]
    by (simp add: gt_mask_def filter_by_mask)
  have run: "plot_unclaimed_estates read_csv strptime file_path date_format =
        Inr [Figure 10 6,
             Bar (map fst (sort_index (value_counts ?fyod)))
                 (map snd (sort_index (value_counts ?fyod))) ''skyblue'' (6 / 10),
             XLabel ''Unclaimed Year'', YLabel ''Count'',
             Title ''Unclaimed House since 2000'',
             XTicks (map fst (sort_index (value_counts ?fyod))) 45,
             TightLayout, Show]"
    unfolding plot_unclaimed_estates_def
    by (simp only: assms g1 g2 sum.case Let_def)
  have "sum_list (map snd (sort_index (value_counts ?fyod))) = length ?fyod"
    by (simp only: sort_index_sum value_counts_sum filter_no_NaN)
  then show ?thesis
    unfolding run by (simp add: dt_year_filter)
qed

theorem yearly_bar_count_total_witness:
  "\<exists>cmds. plot_unclaimed_estates estates_csv strptime_dmy
             ''UnclaimedEstatesList.csv'' ''%d/%m/%Y'' = Inr cmds \<and>
          sum_list (bar_heights cmds) = 3"
proof -
  have h1: "estates_csv ''UnclaimedEstatesList.csv'' = Inr estates"
    by (simp add: estates_csv_def)
  have h2: "getitem estates ''Date of Death'' =
      Inr [Str ''01/02/2003'', NaN, Str ''05/06/1998'', Str ''09/09/2001'', Str ''17/02/2003'']"
    by (simp add: estates_def getitem_def)
  have h3: "to_datetime strptime_dmy ''%d/%m/%Y''
        [Str ''01/02/2003'', NaN, Str ''05/06/1998'', Str ''09/09/2001'', Str ''17/02/2003''] =
      Inr [Some \<lparr>ts_year = 2003, ts_month = 2, ts_day = 1\<rparr>, None,
           Some \<lparr>ts_year = 1998, ts_month = 6, ts_day = 5\<rparr>,
           Some \<lparr>ts_year = 2001, ts_month = 9, ts_day = 9\<rparr>,
           Some \<lparr>ts_year = 2003, ts_month = 2, ts_day = 17\<rparr>]"
    by (simp add: to_datetime_def is_null_def nat_strings_def strptime_dmy_def number_def
        digit_def)
  show ?thesis
    using yearly_bar_count_total [where read_csv = estates_csv
        and file_path = "''UnclaimedEstatesList.csv''" and strptime = strptime_dmy
        and date_format = "''%d/%m/%Y''", OF h1 h2 h3]
    by (simp add: numeral_3_eq_3)
qed

text \<open>
  C6, as amended. When some row has a date that does not match the format and is
  neither missing, nor empty, nor one of the texts that stand for a missing timestamp
  ('NaT', 'nat', 'NAT', 'nan', 'NaN', 'NAN'), the whole call fails with ValueError.
\<close>

theorem unparsable_date_fails:
  assumes "read_csv file_path = Inr data"
    and "getitem data ''Date of Death'' = Inr dod"
    and "c \<in> set dod" "\<not> is_null c" "strptime date_format c = None"
  shows "plot_unclaimed_estates read_csv strptime file_path date_format = Inl ValueError"
proof -
  have "to_datetime strptime date_format dod = Inl ValueError"
    using assms(3-5) by (auto simp: to_datetime_def list_ex_iff)
  then show ?thesis
    by (simp add: plot_unclaimed_estates_def assms(1,2))
qed

theorem unparsable_date_fails_witness:
  "plot_unclaimed_estates estates_csv strptime_dmy ''Bad.csv'' ''%d/%m/%Y'' = Inl ValueError"
proof -
  have h1: "estates_csv ''Bad.csv'' = Inr bad_estates"
    by (simp add: estates_csv_def)
  have h2: "getitem bad_estates ''Date of Death'' = Inr [Str ''01/02/2003'', Str ''2003-02-01'']"
    by (simp add: bad_estates_def getitem_def)
  have h3: "Str ''2003-02-01'' \<in> set [Str ''01/02/2003'', Str ''2003-02-01'']"
    by simp
  have h4: "\<not> is_null (Str ''2003-02-01'')"
    by (simp add: is_null_def nat_strings_def)
  have h5: "strptime_dmy ''%d/%m/%Y'' (Str ''2003-02-01'') = None"
    by (simp add: strptime_dmy_def number_def digit_def)
  show ?thesis
    using unparsable_date_fails [where read_csv = estates_csv
        and file_path = "''Bad.csv''" and strptime = strptime_dmy
        and date_format = "''%d/%m/%Y''", OF h1 h2 h3 h4 h5]
    by simp
qed

theorem missing_date_skipped_counterexample:
  "getitem estates ''Date of Death'' =
     Inr [Str ''01/02/2003'', NaN, Str ''05/06/1998'', Str ''09/09/2001'', Str ''17/02/2003''] \<and>
   strptime_dmy ''%d/%m/%Y'' NaN = None \<and>
   plot_unclaimed_estates estates_csv strptime_dmy ''UnclaimedEstatesList.csv'' ''%d/%m/%Y'' =
     Inr [Figure 10 6,
          Bar [Num 2001, Num 2003] [1, 2] ''skyblue'' (6 / 10),
          XLabel ''Unclaimed Year'', YLabel ''Count'',
          Title ''Unclaimed House since 2000'',
          XTicks [Num 2001, Num 2003] 45,
          TightLayout, Show] \<and>
   getitem nat_estates ''Date of Death'' = Inr [Str ''01/02/2003'', Str ''NaT''] \<and>
   strptime_dmy ''%d/%m/%Y'' (Str ''NaT'') = None \<and>
   plot_unclaimed_estates estates_csv strptime_dmy ''NaT.csv'' ''%d/%m/%Y'' =
     Inr [Figure 10 6,
          Bar [Num 2003] [1] ''skyblue'' (6 / 10),
          XLabel ''Unclaimed Year'', YLabel ''Count'',
          Title ''Unclaimed House since 2000'',
          XTicks [Num 2003] 45,
          TightLayout, Show]"
  by (simp add: estates_simps)

section \<open>Properties of CategoricalBucketPie\<close>
















end
